theory Spec2Isabelle
  imports Main "HOL-Library.Word"
begin

section \<open>The session RPC server of Lightning Terminal\<close>

text \<open>
  A shallow embedding of \<^verbatim>\<open>session_rpcserver.go\<close>: the four RPC handlers, the resume
  decision, the per-session watcher goroutine and the shutdown of the server.

  The handlers talk to collaborators that are not part of that file: the session store
  (\<^verbatim>\<open>session.DB\<close>), the tunnel server (\<^verbatim>\<open>session.Server\<close>), the macaroon baker,
  the session factory, the public-key parser and the clock. Each call to one of them is
  recorded in the server's trace, and what the call returns is read from an environment
  record, so that every theorem holds for every behaviour of the collaborators.
\<close>

subsection \<open>Enumerations\<close>

text \<open>
  The enumerations \<^verbatim>\<open>session.State\<close>, \<^verbatim>\<open>session.Type\<close>, \<^verbatim>\<open>litrpc.SessionState\<close> and
  \<^verbatim>\<open>litrpc.SessionType\<close> are integer types with named constants, declared in other
  packages. Their carriers are the type variables \<open>'s\<close>, \<open>'t\<close>, \<open>'q\<close> and \<open>'r\<close>, and
  the constants are the fields of the record \<open>names\<close>, which every function takes as its
  first argument. A value of a carrier that is none of the constants is a value outside
  the known set.
\<close>

record ('s, 't, 'q, 'r) names =
  StateCreated :: 's
  StateInUse :: 's
  StateRevoked :: 's
  StateExpired :: 's
  TypeMacaroonReadonly :: 't
  TypeMacaroonAdmin :: 't
  TypeMacaroonCustom :: 't
  TypeUIPassword :: 't
  SessionState_STATE_CREATED :: 'q
  SessionState_STATE_IN_USE :: 'q
  SessionState_STATE_REVOKED :: 'q
  SessionState_STATE_EXPIRED :: 'q
  SessionType_TYPE_MACAROON_READONLY :: 'r
  SessionType_TYPE_MACAROON_ADMIN :: 'r
  SessionType_TYPE_MACAROON_CUSTOM :: 'r
  SessionType_TYPE_UI_PASSWORD :: 'r

text \<open>
  The constants of one enumeration are pairwise different (the Go compiler rejects a
  \<^verbatim>\<open>switch\<close> with two equal integer constants among its cases).
\<close>

definition distinct_names :: "('s, 't, 'q, 'r) names \<Rightarrow> bool" where
  "distinct_names K \<longleftrightarrow>
     distinct [StateCreated K, StateInUse K, StateRevoked K, StateExpired K] \<and>
     distinct [TypeMacaroonReadonly K, TypeMacaroonAdmin K, TypeMacaroonCustom K,
               TypeUIPassword K] \<and>
     distinct [SessionState_STATE_CREATED K, SessionState_STATE_IN_USE K,
               SessionState_STATE_REVOKED K, SessionState_STATE_EXPIRED K] \<and>
     distinct [SessionType_TYPE_MACAROON_READONLY K, SessionType_TYPE_MACAROON_ADMIN K,
               SessionType_TYPE_MACAROON_CUSTOM K, SessionType_TYPE_UI_PASSWORD K]"

subsection \<open>Time\<close>

text \<open>
  A \<^verbatim>\<open>time.Time\<close> is modelled by what its wall-clock comparisons read: the signed 64-bit
  count of seconds since January 1 of year 1 (\<^verbatim>\<open>t.sec()\<close>) and the nanoseconds within
  the second (\<^verbatim>\<open>t.nsec()\<close>, an \<^verbatim>\<open>int32\<close> in \<open>[0, 999999999]\<close>). An expiry never has
  a monotonic clock reading, so every comparison of this file is the wall-clock one.
\<close>

type_synonym int64 = "64 word"
type_synonym uint64 = "64 word"

record Time =
  sec :: int64
  nsec :: "32 word"

text \<open>\<^verbatim>\<open>unixToInternal\<close>: the seconds from January 1 of year 1 to January 1, 1970.\<close>

definition unixToInternal :: int64 where
  "unixToInternal = 62135596800"

text \<open>
  \<^verbatim>\<open>int64(x)\<close> of a \<^verbatim>\<open>uint64\<close> and \<^verbatim>\<open>uint64(x)\<close> of an \<^verbatim>\<open>int64\<close> keep the 64 bits; the
  signed reading of a word is \<open>sint\<close>, the unsigned one \<open>uint\<close>.
\<close>

definition to_int64 :: "uint64 \<Rightarrow> int64" where
  "to_int64 x = x"

definition to_uint64 :: "int64 \<Rightarrow> uint64" where
  "to_uint64 x = x"

text \<open>
  \<^verbatim>\<open>time.Unix(sec, 0)\<close>: the addition is an \<^verbatim>\<open>int64\<close> addition and wraps.
\<close>

definition time_Unix :: "int64 \<Rightarrow> Time" where
  "time_Unix s = \<lparr>sec = s + unixToInternal, nsec = 0\<rparr>"

text \<open>\<^verbatim>\<open>t.Unix()\<close>\<close>

definition Unix :: "Time \<Rightarrow> int64" where
  "Unix t = sec t - unixToInternal"

text \<open>\<^verbatim>\<open>t.Before(u)\<close> and \<^verbatim>\<open>t.After(u)\<close>\<close>

definition Before :: "Time \<Rightarrow> Time \<Rightarrow> bool" where
  "Before t u \<longleftrightarrow> sec t <s sec u \<or> (sec t = sec u \<and> nsec t <s nsec u)"

definition After :: "Time \<Rightarrow> Time \<Rightarrow> bool" where
  "After t u \<longleftrightarrow> sec u <s sec t \<or> (sec t = sec u \<and> nsec u <s nsec t)"

subsection \<open>Sessions, requests and responses\<close>

text \<open>A public key is a point of the curve, given by its two coordinates.\<close>

datatype PublicKey = PublicKey int int

type_synonym bytes = "8 word list"

record ('s, 't) Session =
  Label :: string
  State :: 's
  Type :: 't
  Expiry :: Time
  ServerAddr :: string
  DevServer :: bool
  MacaroonRootKey :: uint64
  PairingSecret :: bytes
  LocalPublicKey :: PublicKey
  RemotePublicKey :: "PublicKey option"

record 'r AddSessionRequest =
  req_Label :: string
  req_SessionType :: 'r
  req_ExpiryTimestampSeconds :: uint64
  req_MailboxServerAddr :: string
  req_DevServer :: bool

record RevokeSessionRequest =
  req_LocalPublicKey :: bytes

text \<open>\<^verbatim>\<open>litrpc.Session\<close>, the wire form of a session.\<close>

record ('q, 'r) RPCSession =
  rpc_Label :: string
  rpc_SessionState :: 'q
  rpc_SessionType :: 'r
  rpc_ExpiryTimestampSeconds :: uint64
  rpc_MailboxServerAddr :: string
  rpc_DevServer :: bool
  rpc_PairingSecret :: bytes
  rpc_PairingSecretMnemonic :: string
  rpc_LocalPublicKey :: bytes
  rpc_RemotePublicKey :: bytes

subsection \<open>Errors\<close>

text \<open>
  One constructor for each \<^verbatim>\<open>fmt.Errorf\<close> of the file; an error that wraps the message
  of another one carries it. \<open>External\<close> is an error value returned by a collaborator.
  The number printed in the two \<^verbatim>\<open>unknown ... <%d>\<close> messages is not kept.
\<close>

datatype error =
    External string
  | ExpiryMustBeInTheFuture
  | InvalidSessionType
  | ErrorCreatingNewSession error
  | ErrorStoringSession error
  | ErrorStartingSession error
  | ErrorMarshalingSession error
  | ErrorRevokingSession error
  | ErrorParsingPublicKey error
  | ErrorFetchingSessions error
  | UnknownState
  | UnknownType

text \<open>
  A goroutine of the server can stop in two more ways: a run-time panic, and a wait
  that can never end.
\<close>

datatype fault = Panic string | Blocked

subsection \<open>The server, its goroutines and its trace\<close>

text \<open>
  A closed-notification channel returned by \<^verbatim>\<open>StartSession\<close> is named by a number.
\<close>

type_synonym chan = nat

text \<open>
  The variables a watcher goroutine captures: the session, its local public key with its
  serialisation, and the closed-notification channel.
\<close>

record ('s, 't) watcher =
  w_sess :: "('s, 't) Session"
  w_pubKey :: PublicKey
  w_pubKeyBytes :: bytes
  w_sessionClosedSub :: chan

text \<open>The \<^verbatim>\<open>case\<close> of the watcher's \<^verbatim>\<open>select\<close> that is taken.\<close>

datatype trigger = QuitClosed | SessionClosed | TimerFired

text \<open>\<^verbatim>\<open>session.MacaroonRecipe\<close>, with permissions as opaque strings.\<close>

record MacaroonRecipe =
  Permissions :: "string list"

text \<open>The calls to collaborators, as they appear in the trace.\<close>

datatype ('s, 't) call =
    Call_NewSession string 't Time string bool
  | Call_db_StoreSession "('s, 't) Session"
  | Call_db_RevokeSession PublicKey
  | Call_db_ListSessions
  | Call_superMacBaker uint64 MacaroonRecipe
  | Call_StartSession "('s, 't) Session" string
  | Call_StopSession PublicKey

text \<open>The lines written with \<^verbatim>\<open>log.Debugf\<close>, without their formatting.\<close>

datatype logline =
    Log_NotResumingState bytes
  | Log_NotResumingExpiry bytes Time
  | Log_CouldNotBake bytes error
  | Log_NotResumingType bytes
  | Log_StoppingExpired bytes
  | Log_ErrorStopping error
  | Log_ErrorRevoking error

text \<open>
  The fields of \<^verbatim>\<open>sessionRpcServer\<close> (\<open>quit\<close> as whether the channel is closed, \<open>wg\<close>
  as the counter of the wait group, \<open>stopOnce\<close> as whether the \<^verbatim>\<open>sync.Once\<close> is done),
  followed by what the model adds: the watcher goroutines that are running, the trace of
  collaborator calls, the log, and the number of times the clock has been read.
\<close>

record ('s, 't) sessionRpcServer =
  basicAuth :: string
  quit_closed :: bool
  wg :: int
  stopOnce_done :: bool
  goroutines :: "('s, 't) watcher list"
  calls :: "('s, 't) call list"
  logs :: "logline list"
  clock_reads :: nat

subsection \<open>Collaborators\<close>

text \<open>
  What each collaborator returns, given the trace before the call and the arguments.
  \<open>clock\<close> gives the successive readings of \<^verbatim>\<open>time.Now()\<close>. \<^verbatim>\<open>GetAllPermissions\<close> and
  \<^verbatim>\<open>HeaderMacaroon\<close> belong to the same package as the server and are declared in other
  files; \<^verbatim>\<open>btcec.ParsePubKey\<close>, \<^verbatim>\<open>SerializeCompressed\<close> and
  \<^verbatim>\<open>PassphraseEntropyToMnemonic\<close> are library functions without effects.
\<close>

record ('s, 't) env =
  clock :: "nat \<Rightarrow> Time"
  ret_NewSession :: "('s, 't) call list \<Rightarrow> string \<Rightarrow> 't \<Rightarrow> Time \<Rightarrow> string \<Rightarrow> bool
                       \<Rightarrow> error + ('s, 't) Session"
  ret_db_StoreSession :: "('s, 't) call list \<Rightarrow> ('s, 't) Session \<Rightarrow> error option"
  ret_db_RevokeSession :: "('s, 't) call list \<Rightarrow> PublicKey \<Rightarrow> error option"
  ret_db_ListSessions :: "('s, 't) call list \<Rightarrow> error + ('s, 't) Session list"
  ret_superMacBaker :: "('s, 't) call list \<Rightarrow> uint64 \<Rightarrow> MacaroonRecipe \<Rightarrow> error + string"
  ret_StartSession :: "('s, 't) call list \<Rightarrow> ('s, 't) Session \<Rightarrow> string \<Rightarrow> error + chan"
  ret_StopSession :: "('s, 't) call list \<Rightarrow> PublicKey \<Rightarrow> error option"
  ParsePubKey :: "bytes \<Rightarrow> error + PublicKey"
  GetAllPermissions :: "bool \<Rightarrow> string list"
  HeaderMacaroon :: string
  SerializeCompressed :: "PublicKey \<Rightarrow> bytes"
  PassphraseEntropyToMnemonic :: "bytes \<Rightarrow> error + string list"

type_synonym ('s, 't) server = "('s, 't) sessionRpcServer"

definition time_Now :: "('s, 't) env \<Rightarrow> ('s, 't) server \<Rightarrow> Time \<times> ('s, 't) server" where
  "time_Now E s = (clock E (clock_reads s), s\<lparr>clock_reads := Suc (clock_reads s)\<rparr>)"

definition log_Debugf :: "logline \<Rightarrow> ('s, 't) server \<Rightarrow> ('s, 't) server" where
  "log_Debugf l s = s\<lparr>logs := logs s @ [l]\<rparr>"

definition record_call :: "('s, 't) call \<Rightarrow> ('s, 't) server \<Rightarrow> ('s, 't) server" where
  "record_call c s = s\<lparr>calls := calls s @ [c]\<rparr>"

definition session_NewSession ::
  "('s, 't) env \<Rightarrow> string \<Rightarrow> 't \<Rightarrow> Time \<Rightarrow> string \<Rightarrow> bool \<Rightarrow> ('s, 't) server
     \<Rightarrow> (error + ('s, 't) Session) \<times> ('s, 't) server" where
  "session_NewSession E label typ expiry addr dev s =
     (ret_NewSession E (calls s) label typ expiry addr dev,
      record_call (Call_NewSession label typ expiry addr dev) s)"

definition db_StoreSession ::
  "('s, 't) env \<Rightarrow> ('s, 't) Session \<Rightarrow> ('s, 't) server \<Rightarrow> error option \<times> ('s, 't) server" where
  "db_StoreSession E sess s =
     (ret_db_StoreSession E (calls s) sess, record_call (Call_db_StoreSession sess) s)"

definition db_RevokeSession ::
  "('s, 't) env \<Rightarrow> PublicKey \<Rightarrow> ('s, 't) server \<Rightarrow> error option \<times> ('s, 't) server" where
  "db_RevokeSession E pubKey s =
     (ret_db_RevokeSession E (calls s) pubKey, record_call (Call_db_RevokeSession pubKey) s)"

definition db_ListSessions ::
  "('s, 't) env \<Rightarrow> ('s, 't) server \<Rightarrow> (error + ('s, 't) Session list) \<times> ('s, 't) server" where
  "db_ListSessions E s = (ret_db_ListSessions E (calls s), record_call Call_db_ListSessions s)"

definition superMacBaker ::
  "('s, 't) env \<Rightarrow> uint64 \<Rightarrow> MacaroonRecipe \<Rightarrow> ('s, 't) server
     \<Rightarrow> (error + string) \<times> ('s, 't) server" where
  "superMacBaker E rootKeyID recipe s =
     (ret_superMacBaker E (calls s) rootKeyID recipe,
      record_call (Call_superMacBaker rootKeyID recipe) s)"

definition sessionServer_StartSession ::
  "('s, 't) env \<Rightarrow> ('s, 't) Session \<Rightarrow> string \<Rightarrow> ('s, 't) server
     \<Rightarrow> (error + chan) \<times> ('s, 't) server" where
  "sessionServer_StartSession E sess authData s =
     (ret_StartSession E (calls s) sess authData,
      record_call (Call_StartSession sess authData) s)"

definition sessionServer_StopSession ::
  "('s, 't) env \<Rightarrow> PublicKey \<Rightarrow> ('s, 't) server \<Rightarrow> error option \<times> ('s, 't) server" where
  "sessionServer_StopSession E pubKey s =
     (ret_StopSession E (calls s) pubKey, record_call (Call_StopSession pubKey) s)"

subsection \<open>Translation between the session record and its wire form\<close>

text \<open>A \<^verbatim>\<open>switch\<close> tries its cases in order; the chain of tests keeps that order.\<close>

definition marshalRPCState :: "('s, 't, 'q, 'r) names \<Rightarrow> 's \<Rightarrow> error + 'q" where
  "marshalRPCState K state =
     (if state = StateCreated K then Inr (SessionState_STATE_CREATED K)
      else if state = StateInUse K then Inr (SessionState_STATE_IN_USE K)
      else if state = StateRevoked K then Inr (SessionState_STATE_REVOKED K)
      else if state = StateExpired K then Inr (SessionState_STATE_EXPIRED K)
      else Inl UnknownState)"

definition marshalRPCType :: "('s, 't, 'q, 'r) names \<Rightarrow> 't \<Rightarrow> error + 'r" where
  "marshalRPCType K typ =
     (if typ = TypeMacaroonReadonly K then Inr (SessionType_TYPE_MACAROON_READONLY K)
      else if typ = TypeMacaroonAdmin K then Inr (SessionType_TYPE_MACAROON_ADMIN K)
      else if typ = TypeMacaroonCustom K then Inr (SessionType_TYPE_MACAROON_CUSTOM K)
      else if typ = TypeUIPassword K then Inr (SessionType_TYPE_UI_PASSWORD K)
      else Inl UnknownType)"

definition unmarshalRPCType :: "('s, 't, 'q, 'r) names \<Rightarrow> 'r \<Rightarrow> error + 't" where
  "unmarshalRPCType K typ =
     (if typ = SessionType_TYPE_MACAROON_READONLY K then Inr (TypeMacaroonReadonly K)
      else if typ = SessionType_TYPE_MACAROON_ADMIN K then Inr (TypeMacaroonAdmin K)
      else if typ = SessionType_TYPE_MACAROON_CUSTOM K then Inr (TypeMacaroonCustom K)
      else if typ = SessionType_TYPE_UI_PASSWORD K then Inr (TypeUIPassword K)
      else Inl UnknownType)"

text \<open>\<^verbatim>\<open>strings.Join(words, " ")\<close>\<close>

fun strings_Join :: "string list \<Rightarrow> string \<Rightarrow> string" where
  "strings_Join [] sep = []"
| "strings_Join [w] sep = w"
| "strings_Join (w # ws) sep = w @ sep @ strings_Join ws sep"

definition marshalRPCSession ::
  "('s, 't, 'q, 'r) names \<Rightarrow> ('s, 't) env \<Rightarrow> ('s, 't) Session \<Rightarrow> error + ('q, 'r) RPCSession" where
  "marshalRPCSession K E sess =
     (case marshalRPCState K (State sess) of
        Inl err \<Rightarrow> Inl err
      | Inr rpcState \<Rightarrow>
     (case marshalRPCType K (Type sess) of
        Inl err \<Rightarrow> Inl err
      | Inr rpcType \<Rightarrow>
     (let remotePubKey = (case RemotePublicKey sess of
                            None \<Rightarrow> []
                          | Some k \<Rightarrow> SerializeCompressed E k) in
      case PassphraseEntropyToMnemonic E (PairingSecret sess) of
        Inl err \<Rightarrow> Inl err
      | Inr mnemonic \<Rightarrow>
          Inr \<lparr>rpc_Label = Label sess,
               rpc_SessionState = rpcState,
               rpc_SessionType = rpcType,
               rpc_ExpiryTimestampSeconds = to_uint64 (Unix (Expiry sess)),
               rpc_MailboxServerAddr = ServerAddr sess,
               rpc_DevServer = DevServer sess,
               rpc_PairingSecret = PairingSecret sess,
               rpc_PairingSecretMnemonic = strings_Join mnemonic '' '',
               rpc_LocalPublicKey = SerializeCompressed E (LocalPublicKey sess),
               rpc_RemotePublicKey = remotePubKey\<rparr>)))"

subsection \<open>The watcher goroutine\<close>

text \<open>\<^verbatim>\<open>close(s.quit)\<close>: closing a closed channel panics.\<close>

definition close_quit :: "('s, 't) server \<Rightarrow> fault + ('s, 't) server" where
  "close_quit s =
     (if quit_closed s then Inl (Panic ''close of closed channel'')
      else Inr (s\<lparr>quit_closed := True\<rparr>))"

text \<open>\<^verbatim>\<open>s.wg.Add(1)\<close> and \<^verbatim>\<open>s.wg.Done()\<close>: a counter below zero panics.\<close>

definition wg_Add :: "('s, 't) server \<Rightarrow> ('s, 't) server" where
  "wg_Add s = s\<lparr>wg := wg s + 1\<rparr>"

definition wg_Done :: "('s, 't) server \<Rightarrow> fault + ('s, 't) server" where
  "wg_Done s =
     (if wg s - 1 < 0 then Inl (Panic ''sync: negative WaitGroup counter'')
      else Inr (s\<lparr>wg := wg s - 1\<rparr>))"

text \<open>
  The body of the goroutine that \<^verbatim>\<open>resumeSession\<close> starts, from the moment its
  \<^verbatim>\<open>select\<close> takes the case \<open>trig\<close> to its end. The timer was set from a reading of
  the clock (\<^verbatim>\<open>time.Until(sess.Expiry)\<close>); when it fires is the choice of \<open>trig\<close>. The
  \<^verbatim>\<open>select\<close> is not in a loop: after the chosen case the deferred \<^verbatim>\<open>wg.Done()\<close> runs
  and the goroutine is gone.
\<close>

definition watcher_body ::
  "('s, 't) env \<Rightarrow> trigger \<Rightarrow> ('s, 't) watcher \<Rightarrow> ('s, 't) server \<Rightarrow> fault + ('s, 't) server" where
  "watcher_body E trig w s =
     (let s1 = (case trig of
                  QuitClosed \<Rightarrow> s
                | SessionClosed \<Rightarrow> s
                | TimerFired \<Rightarrow>
                    (let s2 = log_Debugf (Log_StoppingExpired (w_pubKeyBytes w)) s;
                         (err, s3) = sessionServer_StopSession E (w_pubKey w) s2;
                         s4 = (case err of
                                 Some e \<Rightarrow> log_Debugf (Log_ErrorStopping e) s3
                               | None \<Rightarrow> s3);
                         (err', s5) = db_RevokeSession E (w_pubKey w) s4
                     in (case err' of
                           Some e \<Rightarrow> log_Debugf (Log_ErrorRevoking e) s5
                         | None \<Rightarrow> s5)))
      in wg_Done (s1\<lparr>goroutines := remove1 w (goroutines s1)\<rparr>))"

text \<open>
  \<^verbatim>\<open>go func() { ... }()\<close>: the goroutine reads the clock for its timer and then waits in
  its \<^verbatim>\<open>select\<close>.
\<close>

definition go_watcher ::
  "('s, 't) env \<Rightarrow> ('s, 't) watcher \<Rightarrow> ('s, 't) server \<Rightarrow> ('s, 't) server" where
  "go_watcher E w s =
     (let (now, s1) = time_Now E s
      in s1\<lparr>goroutines := goroutines s1 @ [w]\<rparr>)"

subsection \<open>Resuming a session\<close>

text \<open>
  Lines 144 to 179 of \<^verbatim>\<open>resumeSession\<close>, which every path that has built \<open>authData\<close>
  continues with: the tunnel is started and, if that succeeds, the watcher is spawned.
\<close>

definition startAndWatch ::
  "('s, 't) env \<Rightarrow> ('s, 't) Session \<Rightarrow> string \<Rightarrow> ('s, 't) server \<Rightarrow> error option \<times> ('s, 't) server" where
  "startAndWatch E sess authData s =
     (let (r, s1) = sessionServer_StartSession E sess authData s
      in case r of
           Inl err \<Rightarrow> (Some err, s1)
         | Inr sessionClosedSub \<Rightarrow>
             (None,
              go_watcher E
                \<lparr>w_sess = sess,
                 w_pubKey = LocalPublicKey sess,
                 w_pubKeyBytes = SerializeCompressed E (LocalPublicKey sess),
                 w_sessionClosedSub = sessionClosedSub\<rparr>
                (wg_Add s1)))"

text \<open>\<^verbatim>\<open>resumeSession\<close>: \<open>None\<close> is the \<^verbatim>\<open>nil\<close> error.\<close>

definition resumeSession ::
  "('s, 't, 'q, 'r) names \<Rightarrow> ('s, 't) env \<Rightarrow> ('s, 't) Session \<Rightarrow> ('s, 't) server
     \<Rightarrow> error option \<times> ('s, 't) server" where
  "resumeSession K E sess s =
     (let pubKey = LocalPublicKey sess;
          pubKeyBytes = SerializeCompressed E pubKey
      in
        if State sess \<noteq> StateInUse K \<and> State sess \<noteq> StateCreated K then
          (None, log_Debugf (Log_NotResumingState pubKeyBytes) s)
        else
          let (now, s1) = time_Now E s in
          if Before (Expiry sess) now then
            (let s2 = log_Debugf (Log_NotResumingExpiry pubKeyBytes (Expiry sess)) s1;
                 (err, s3) = db_RevokeSession E pubKey s2
             in case err of
                  Some e \<Rightarrow> (Some (ErrorRevokingSession e), s3)
                | None \<Rightarrow> (None, s3))
          else if Type sess = TypeUIPassword K then
            startAndWatch E sess (''Authorization: Basic '' @ basicAuth s1) s1
          else if Type sess = TypeMacaroonAdmin K \<or> Type sess = TypeMacaroonReadonly K then
            (let readOnly = (Type sess = TypeMacaroonReadonly K);
                 (r, s2) = superMacBaker E (MacaroonRootKey sess)
                             \<lparr>Permissions = GetAllPermissions E readOnly\<rparr> s1
             in case r of
                  Inl err \<Rightarrow> (None, log_Debugf (Log_CouldNotBake pubKeyBytes err) s2)
                | Inr mac \<Rightarrow> startAndWatch E sess (HeaderMacaroon E @ '': '' @ mac) s2)
          else
            (None, log_Debugf (Log_NotResumingType pubKeyBytes) s1))"

subsection \<open>The RPC handlers\<close>

record ('q, 'r) AddSessionResponse =
  resp_Session :: "('q, 'r) RPCSession"

definition AddSession ::
  "('s, 't, 'q, 'r) names \<Rightarrow> ('s, 't) env \<Rightarrow> 'r AddSessionRequest \<Rightarrow> ('s, 't) server
     \<Rightarrow> (error + ('q, 'r) AddSessionResponse) \<times> ('s, 't) server" where
  "AddSession K E req s =
     (let expiry = time_Unix (to_int64 (req_ExpiryTimestampSeconds req));
          (now, s1) = time_Now E s
      in
        if After now expiry then (Inl ExpiryMustBeInTheFuture, s1)
        else
          (case unmarshalRPCType K (req_SessionType req) of
             Inl err \<Rightarrow> (Inl err, s1)
           | Inr typ \<Rightarrow>
          (if typ \<noteq> TypeUIPassword K \<and> typ \<noteq> TypeMacaroonAdmin K \<and>
              typ \<noteq> TypeMacaroonReadonly K then
             (Inl InvalidSessionType, s1)
           else
          (let (r, s2) = session_NewSession E (req_Label req) typ expiry
                           (req_MailboxServerAddr req) (req_DevServer req) s1
           in (case r of
                 Inl err \<Rightarrow> (Inl (ErrorCreatingNewSession err), s2)
               | Inr sess \<Rightarrow>
          (let (err, s3) = db_StoreSession E sess s2
           in (case err of
                 Some e \<Rightarrow> (Inl (ErrorStoringSession e), s3)
               | None \<Rightarrow>
          (let (err', s4) = resumeSession K E sess s3
           in (case err' of
                 Some e \<Rightarrow> (Inl (ErrorStartingSession e), s4)
               | None \<Rightarrow>
          (case marshalRPCSession K E sess of
             Inl e \<Rightarrow> (Inl (ErrorMarshalingSession e), s4)
           | Inr rpcSession \<Rightarrow> (Inr \<lparr>resp_Session = rpcSession\<rparr>, s4)))))))))))"

text \<open>The loop of \<^verbatim>\<open>ListSessions\<close> stops at the first session that cannot be translated.\<close>

fun marshalRPCSessions ::
  "('s, 't, 'q, 'r) names \<Rightarrow> ('s, 't) env \<Rightarrow> ('s, 't) Session list \<Rightarrow> error + ('q, 'r) RPCSession list" where
  "marshalRPCSessions K E [] = Inr []"
| "marshalRPCSessions K E (sess # sessions) =
     (case marshalRPCSession K E sess of
        Inl err \<Rightarrow> Inl (ErrorMarshalingSession err)
      | Inr r \<Rightarrow>
          (case marshalRPCSessions K E sessions of
             Inl err \<Rightarrow> Inl err
           | Inr rs \<Rightarrow> Inr (r # rs)))"

definition ListSessions ::
  "('s, 't, 'q, 'r) names \<Rightarrow> ('s, 't) env \<Rightarrow> ('s, 't) server
     \<Rightarrow> (error + ('q, 'r) RPCSession list) \<times> ('s, 't) server" where
  "ListSessions K E s =
     (let (r, s1) = db_ListSessions E s
      in case r of
           Inl err \<Rightarrow> (Inl (ErrorFetchingSessions err), s1)
         | Inr sessions \<Rightarrow> (marshalRPCSessions K E sessions, s1))"

text \<open>\<^verbatim>\<open>RevokeSession\<close>: \<open>Inr ()\<close> is the empty \<^verbatim>\<open>RevokeSessionResponse\<close>.\<close>

definition RevokeSession ::
  "('s, 't) env \<Rightarrow> RevokeSessionRequest \<Rightarrow> ('s, 't) server \<Rightarrow> (error + unit) \<times> ('s, 't) server" where
  "RevokeSession E req s =
     (case ParsePubKey E (req_LocalPublicKey req) of
        Inl err \<Rightarrow> (Inl (ErrorParsingPublicKey err), s)
      | Inr pubKey \<Rightarrow>
          (let (err, s1) = db_RevokeSession E pubKey s
           in case err of
                Some e \<Rightarrow> (Inl (ErrorRevokingSession e), s1)
              | None \<Rightarrow>
                  (let (err', s2) = sessionServer_StopSession E pubKey s1
                   in case err' of
                        Some e \<Rightarrow> (Inr (), log_Debugf (Log_ErrorStopping e) s2)
                      | None \<Rightarrow> (Inr (), s2))))"

subsection \<open>Shutdown\<close>

text \<open>
  \<^verbatim>\<open>s.wg.Wait()\<close> after \<^verbatim>\<open>close(s.quit)\<close>: every running watcher has a case of its
  \<^verbatim>\<open>select\<close> that is ready, takes one (\<open>pick\<close> says which: the other two channels may
  be ready as well) and ends. The wait returns when the counter is zero.
\<close>

fun run_watchers ::
  "('s, 't) env \<Rightarrow> (('s, 't) watcher \<Rightarrow> trigger) \<Rightarrow> ('s, 't) watcher list \<Rightarrow> ('s, 't) server
     \<Rightarrow> fault + ('s, 't) server" where
  "run_watchers E pick [] s = Inr s"
| "run_watchers E pick (w # ws) s =
     (case watcher_body E (pick w) w s of
        Inl f \<Rightarrow> Inl f
      | Inr s' \<Rightarrow> run_watchers E pick ws s')"

definition wg_Wait ::
  "('s, 't) env \<Rightarrow> (('s, 't) watcher \<Rightarrow> trigger) \<Rightarrow> ('s, 't) server \<Rightarrow> fault + ('s, 't) server" where
  "wg_Wait E pick s =
     (case run_watchers E pick (goroutines s) s of
        Inl f \<Rightarrow> Inl f
      | Inr s' \<Rightarrow> if wg s' = 0 then Inr s' else Inl Blocked)"

text \<open>\<^verbatim>\<open>stop\<close>: the body runs under \<^verbatim>\<open>s.stopOnce.Do\<close>.\<close>

definition stop ::
  "('s, 't) env \<Rightarrow> (('s, 't) watcher \<Rightarrow> trigger) \<Rightarrow> ('s, 't) server \<Rightarrow> fault + ('s, 't) server" where
  "stop E pick s =
     (if stopOnce_done s then Inr s
      else
        (case close_quit s of
           Inl f \<Rightarrow> Inl f
         | Inr s1 \<Rightarrow>
        (case wg_Wait E pick s1 of
           Inl f \<Rightarrow> Inl f
         | Inr s2 \<Rightarrow> Inr (s2\<lparr>stopOnce_done := True\<rparr>))))"

text \<open>Several invocations of \<^verbatim>\<open>stop\<close>, one after the other.\<close>

fun stop_many ::
  "('s, 't) env \<Rightarrow> (('s, 't) watcher \<Rightarrow> trigger) list \<Rightarrow> ('s, 't) server \<Rightarrow> fault + ('s, 't) server" where
  "stop_many E [] s = Inr s"
| "stop_many E (pick # picks) s =
     (case stop E pick s of
        Inl f \<Rightarrow> Inl f
      | Inr s' \<Rightarrow> stop_many E picks s')"

subsection \<open>What holds between two operations\<close>

text \<open>
  The counter of the wait group is the number of running watchers (it is incremented just
  before a watcher is spawned and decremented as the last step of each watcher), and the
  \<open>quit\<close> channel is closed by \<^verbatim>\<open>stop\<close> only.
\<close>

definition server_inv :: "('s, 't) server \<Rightarrow> bool" where
  "server_inv s \<longleftrightarrow>
     wg s = int (length (goroutines s)) \<and> (quit_closed s \<longrightarrow> stopOnce_done s)"

subsection \<open>Concrete values\<close>

text \<open>
  The enumerations with the numbers 0 to 3 in the order of their declarations, a
  collaborator environment in which every call succeeds and the clock stands at one
  million seconds after January 1, 1970, a server that has just been created, and a
  session.
\<close>

definition names0 :: "(nat, nat, nat, nat) names" where
  "names0 =
     \<lparr>StateCreated = 0, StateInUse = 1, StateRevoked = 2, StateExpired = 3,
      TypeMacaroonReadonly = 0, TypeMacaroonAdmin = 1, TypeMacaroonCustom = 2,
      TypeUIPassword = 3,
      SessionState_STATE_CREATED = 0, SessionState_STATE_IN_USE = 1,
      SessionState_STATE_REVOKED = 2, SessionState_STATE_EXPIRED = 3,
      SessionType_TYPE_MACAROON_READONLY = 0, SessionType_TYPE_MACAROON_ADMIN = 1,
      SessionType_TYPE_MACAROON_CUSTOM = 2, SessionType_TYPE_UI_PASSWORD = 3\<rparr>"

definition now0 :: Time where
  "now0 = \<lparr>sec = 62136596800, nsec = 0\<rparr>"

definition key0 :: PublicKey where
  "key0 = PublicKey 7 11"

definition session0 :: "(nat, nat) Session" where
  "session0 =
     \<lparr>Label = ''s'', State = 0, Type = 3, Expiry = \<lparr>sec = 62136600400, nsec = 0\<rparr>,
      ServerAddr = ''mailbox'', DevServer = False, MacaroonRootKey = 5,
      PairingSecret = [1, 2], LocalPublicKey = key0, RemotePublicKey = None\<rparr>"

definition env0 :: "(nat, nat) env" where
  "env0 =
     \<lparr>clock = (\<lambda>n. now0),
      ret_NewSession = (\<lambda>h label typ expiry addr dev.
         Inr (session0\<lparr>Label := label, Type := typ, Expiry := expiry,
                        ServerAddr := addr, DevServer := dev\<rparr>)),
      ret_db_StoreSession = (\<lambda>h sess. None),
      ret_db_RevokeSession = (\<lambda>h k. None),
      ret_db_ListSessions = (\<lambda>h. Inr []),
      ret_superMacBaker = (\<lambda>h k r. Inr ''mac''),
      ret_StartSession = (\<lambda>h sess a. Inr 0),
      ret_StopSession = (\<lambda>h k. None),
      ParsePubKey = (\<lambda>b. if b = [2, 7] then Inr key0 else Inl (External ''bad key'')),
      GetAllPermissions = (\<lambda>readOnly. if readOnly then [''read''] else [''read'', ''write'']),
      HeaderMacaroon = ''Macaroon'',
      SerializeCompressed = (\<lambda>k. [2, 7]),
      PassphraseEntropyToMnemonic = (\<lambda>b. Inr [''abandon'', ''ability''])\<rparr>"

definition server0 :: "(nat, nat) server" where
  "server0 =
     \<lparr>basicAuth = ''dTpw'', quit_closed = False, wg = 0, stopOnce_done = False,
      goroutines = [], calls = [], logs = [], clock_reads = 0\<rparr>"

text \<open>A watcher of \<open>session0\<close>, as \<^verbatim>\<open>resumeSession\<close> spawns it.\<close>

definition watcher0 :: "(nat, nat) watcher" where
  "watcher0 =
     \<lparr>w_sess = session0, w_pubKey = key0, w_pubKeyBytes = [2, 7], w_sessionClosedSub = 0\<rparr>"

text \<open>
  Variations: a session that expired just before the clock's reading, sessions of other
  types, collaborators that fail, a server with one running watcher, and requests whose
  expiry is the clock's reading, one second earlier, and \<open>2^63\<close>.
\<close>

definition expired0 :: "(nat, nat) Session" where
  "expired0 = session0\<lparr>Expiry := \<lparr>sec = 62136596799, nsec = 999999999\<rparr>\<rparr>"

definition custom0 :: "(nat, nat) Session" where
  "custom0 = session0\<lparr>Type := 2\<rparr>"

definition admin0 :: "(nat, nat) Session" where
  "admin0 = session0\<lparr>Type := 1\<rparr>"

definition env_bake_fails :: "(nat, nat) env" where
  "env_bake_fails = env0\<lparr>ret_superMacBaker := (\<lambda>h k r. Inl (External ''no macaroon''))\<rparr>"

definition env_store_fails :: "(nat, nat) env" where
  "env_store_fails = env0\<lparr>ret_db_RevokeSession := (\<lambda>h k. Some (External ''not found''))\<rparr>"

definition env_stop_fails :: "(nat, nat) env" where
  "env_stop_fails = env0\<lparr>ret_StopSession := (\<lambda>h k. Some (External ''not running''))\<rparr>"

definition env_both_fail :: "(nat, nat) env" where
  "env_both_fail =
     env0\<lparr>ret_StopSession := (\<lambda>h k. Some (External ''not running'')),
          ret_db_RevokeSession := (\<lambda>h k. Some (External ''not found''))\<rparr>"

definition server1 :: "(nat, nat) server" where
  "server1 = server0\<lparr>wg := 1, goroutines := [watcher0]\<rparr>"

definition request_now :: "nat AddSessionRequest" where
  "request_now =
     \<lparr>req_Label = ''s'', req_SessionType = 3, req_ExpiryTimestampSeconds = 1000000,
      req_MailboxServerAddr = ''mailbox'', req_DevServer = False\<rparr>"

definition request_past :: "nat AddSessionRequest" where
  "request_past = request_now\<lparr>req_ExpiryTimestampSeconds := 999999\<rparr>"

definition request_high :: "nat AddSessionRequest" where
  "request_high = request_now\<lparr>req_ExpiryTimestampSeconds := 9223372036854775808\<rparr>"

definition revoke0 :: RevokeSessionRequest where
  "revoke0 = \<lparr>req_LocalPublicKey = [2, 7]\<rparr>"

section \<open>Properties\<close>

lemmas collab_defs = time_Now_def log_Debugf_def record_call_def session_NewSession_def
  db_StoreSession_def db_RevokeSession_def db_ListSessions_def superMacBaker_def
  sessionServer_StartSession_def sessionServer_StopSession_def

lemmas ex_defs = names0_def env0_def server0_def session0_def now0_def key0_def watcher0_def
  expired0_def custom0_def admin0_def env_bake_fails_def env_store_fails_def
  env_stop_fails_def env_both_fail_def server1_def request_now_def request_past_def
  request_high_def revoke0_def

subsection \<open>Signed readings of 64-bit words\<close>

lemma sint_high_uint64:
  fixes u :: "64 word"
  assumes "2 ^ 63 \<le> uint u"
  shows "sint u < 0"
proof -
  have "sint u = signed_take_bit 63 (uint u)"
    by (simp add: sint_uint)
  also have "\<dots> \<le> uint u - 2 ^ Suc 63"
    using assms by (rule signed_take_bit_int_less_eq)
  also have "\<dots> < 0"
    using uint_lt2p [of u] by simp
  finally show ?thesis .
qed

lemma sint_add_unixToInternal:
  fixes u :: "64 word"
  assumes "sint u < 0"
  shows "sint (u + unixToInternal) = sint u + 62135596800"
proof -
  have lo: "- (2 ^ 63) \<le> sint u"
    using sint_ge [of u] by simp
  have c: "sint (unixToInternal :: 64 word) = 62135596800"
    by (simp add: unixToInternal_def)
  have "sint (u + unixToInternal) = signed_take_bit 63 (sint u + 62135596800)"
    by (simp add: sint_word_ariths c)
  also have "\<dots> = sint u + 62135596800"
    using lo assms by (intro signed_take_bit_int_eq_self) simp_all
  finally show ?thesis .
qed

text \<open>
  A negative Unix timestamp is a time before 1970, hence before any reading of a clock
  that stands at or after January 1, 1970.
\<close>

lemma negative_Unix_After:
  assumes neg: "sint u < 0" and now: "unixToInternal \<le>s sec now"
  shows "After now (time_Unix u)"
proof -
  have "sint (u + unixToInternal) < 62135596800"
    using neg by (simp add: sint_add_unixToInternal)
  moreover have "62135596800 \<le> sint (sec now)"
    using now by (simp add: word_sle_eq unixToInternal_def)
  ultimately have "u + unixToInternal <s sec now"
    by (simp add: word_sless_alt)
  then show ?thesis
    by (simp add: After_def time_Unix_def)
qed

lemma After_iff_Before: "After t u \<longleftrightarrow> Before u t"
  by (auto simp: After_def Before_def)

subsection \<open>The resume decision\<close>

text \<open>
  Claim C2. A session whose state is neither Created nor InUse (Revoked and Expired are
  such states) is not resumed: \<^verbatim>\<open>resumeSession\<close> returns no error, calls no
  collaborator (no store write, no start of the tunnel) and spawns no watcher.
\<close>

theorem resumeSession_other_state_noop:
  assumes "State sess \<noteq> StateCreated K" and "State sess \<noteq> StateInUse K"
  shows "fst (resumeSession K E sess s) = None \<and>
         calls (snd (resumeSession K E sess s)) = calls s \<and>
         goroutines (snd (resumeSession K E sess s)) = goroutines s \<and>
         wg (snd (resumeSession K E sess s)) = wg s"
  using assms by (simp add: resumeSession_def log_Debugf_def)

theorem resumeSession_other_state_noop_witness:
  "State (session0\<lparr>State := StateRevoked names0\<rparr>) \<noteq> StateCreated names0 \<and>
   State (session0\<lparr>State := StateRevoked names0\<rparr>) \<noteq> StateInUse names0 \<and>
   fst (resumeSession names0 env0 (session0\<lparr>State := StateRevoked names0\<rparr>) server0) = None \<and>
   calls (snd (resumeSession names0 env0 (session0\<lparr>State := StateRevoked names0\<rparr>) server0)) = [] \<and>
   goroutines (snd (resumeSession names0 env0 (session0\<lparr>State := StateRevoked names0\<rparr>) server0)) = [] \<and>
   wg (snd (resumeSession names0 env0 (session0\<lparr>State := StateRevoked names0\<rparr>) server0)) = 0"
  using resumeSession_other_state_noop
    [where sess = "session0\<lparr>State := StateRevoked names0\<rparr>" and K = names0 and E = env0
       and s = server0]
  by (simp add: names0_def server0_def)

text \<open>
  Claim C1, amended. For a session in state Created or InUse whose expiry is strictly
  before the reading of the clock, \<^verbatim>\<open>resumeSession\<close> makes exactly one call, the
  store's \<^verbatim>\<open>RevokeSession\<close> for the session's local key; it does not start the tunnel
  and spawns no watcher; it returns an error exactly when that store call fails, and the
  error is the store's, wrapped.
\<close>

theorem resumeSession_expired_revokes:
  assumes "State sess = StateCreated K \<or> State sess = StateInUse K"
    and "Before (Expiry sess) (clock E (clock_reads s))"
  shows "fst (resumeSession K E sess s) =
           map_option ErrorRevokingSession
             (ret_db_RevokeSession E (calls s) (LocalPublicKey sess)) \<and>
         calls (snd (resumeSession K E sess s)) =
           calls s @ [Call_db_RevokeSession (LocalPublicKey sess)] \<and>
         goroutines (snd (resumeSession K E sess s)) = goroutines s \<and>
         wg (snd (resumeSession K E sess s)) = wg s"
  using assms
  by (auto simp: resumeSession_def collab_defs Let_def split: option.splits)

theorem resumeSession_expired_revokes_witness:
  "(State expired0 = StateCreated names0 \<or> State expired0 = StateInUse names0) \<and>
   Before (Expiry expired0) (clock env0 (clock_reads server0)) \<and>
   fst (resumeSession names0 env0 expired0 server0) = None \<and>
   calls (snd (resumeSession names0 env0 expired0 server0)) = [Call_db_RevokeSession key0] \<and>
   goroutines (snd (resumeSession names0 env0 expired0 server0)) = [] \<and>
   wg (snd (resumeSession names0 env0 expired0 server0)) = 0"
proof -
  have st: "State expired0 = StateCreated names0 \<or> State expired0 = StateInUse names0"
    by (simp add: expired0_def session0_def names0_def)
  have ex: "Before (Expiry expired0) (clock env0 (clock_reads server0))"
    by (simp add: expired0_def session0_def env0_def now0_def server0_def Before_def
        word_sless_alt)
  from resumeSession_expired_revokes [OF st ex] st ex show ?thesis
    by (simp add: expired0_def session0_def env0_def server0_def)
qed

text \<open>
  The claim as it was stated covers a session whose expiry equals the reading of the clock
  (an expiry that is not after now). Such a session is not revoked: the tunnel is started
  and a watcher is spawned.
\<close>

theorem resumeSession_expiry_now_starts:
  "State (session0\<lparr>Expiry := now0\<rparr>) = StateCreated names0 \<and>
   \<not> After (Expiry (session0\<lparr>Expiry := now0\<rparr>)) (clock env0 (clock_reads server0)) \<and>
   fst (resumeSession names0 env0 (session0\<lparr>Expiry := now0\<rparr>) server0) = None \<and>
   calls (snd (resumeSession names0 env0 (session0\<lparr>Expiry := now0\<rparr>) server0)) =
     [Call_StartSession (session0\<lparr>Expiry := now0\<rparr>) ''Authorization: Basic dTpw''] \<and>
   length (goroutines (snd (resumeSession names0 env0 (session0\<lparr>Expiry := now0\<rparr>) server0))) = 1 \<and>
   wg (snd (resumeSession names0 env0 (session0\<lparr>Expiry := now0\<rparr>) server0)) = 1"
  by (simp add: ex_defs resumeSession_def startAndWatch_def go_watcher_def wg_Add_def
      collab_defs Before_def After_def Let_def)

text \<open>
  Claim C5, amended. A session that reaches the construction of the credential with a
  type other than UIPassword, MacaroonAdmin and MacaroonReadonly is skipped:
  \<^verbatim>\<open>resumeSession\<close> returns no error, calls no collaborator and spawns no watcher.
\<close>

theorem resumeSession_other_type_skipped:
  assumes "State sess = StateCreated K \<or> State sess = StateInUse K"
    and "\<not> Before (Expiry sess) (clock E (clock_reads s))"
    and "Type sess \<noteq> TypeUIPassword K"
    and "Type sess \<noteq> TypeMacaroonAdmin K"
    and "Type sess \<noteq> TypeMacaroonReadonly K"
  shows "fst (resumeSession K E sess s) = None \<and>
         calls (snd (resumeSession K E sess s)) = calls s \<and>
         goroutines (snd (resumeSession K E sess s)) = goroutines s \<and>
         wg (snd (resumeSession K E sess s)) = wg s"
  using assms
  by (auto simp: resumeSession_def collab_defs Let_def)

theorem resumeSession_other_type_skipped_witness:
  "(State custom0 = StateCreated names0 \<or> State custom0 = StateInUse names0) \<and>
   \<not> Before (Expiry custom0) (clock env0 (clock_reads server0)) \<and>
   Type custom0 \<noteq> TypeUIPassword names0 \<and>
   Type custom0 \<noteq> TypeMacaroonAdmin names0 \<and>
   Type custom0 \<noteq> TypeMacaroonReadonly names0 \<and>
   fst (resumeSession names0 env0 custom0 server0) = None \<and>
   calls (snd (resumeSession names0 env0 custom0 server0)) = [] \<and>
   goroutines (snd (resumeSession names0 env0 custom0 server0)) = [] \<and>
   wg (snd (resumeSession names0 env0 custom0 server0)) = 0"
proof -
  have h: "State custom0 = StateCreated names0 \<or> State custom0 = StateInUse names0"
    "\<not> Before (Expiry custom0) (clock env0 (clock_reads server0))"
    "Type custom0 \<noteq> TypeUIPassword names0"
    "Type custom0 \<noteq> TypeMacaroonAdmin names0"
    "Type custom0 \<noteq> TypeMacaroonReadonly names0"
    by (simp_all add: ex_defs Before_def word_sless_alt)
  from resumeSession_other_type_skipped [OF h] h show ?thesis
    by (simp add: server0_def)
qed

text \<open>
  The claim as it was stated has an error returned for such a session. A MacaroonCustom
  session in state Created with an expiry after now is resumed with no error.
\<close>

theorem resumeSession_custom_type_no_error:
  "State custom0 = StateCreated names0 \<and>
   Type custom0 = TypeMacaroonCustom names0 \<and>
   After (Expiry custom0) (clock env0 (clock_reads server0)) \<and>
   fst (resumeSession names0 env0 custom0 server0) = None"
  by (simp add: ex_defs resumeSession_def collab_defs Before_def After_def Let_def
      word_sless_alt)

text \<open>
  Claim C7. When a MacaroonAdmin or MacaroonReadonly session is resumed and the baker
  fails, \<^verbatim>\<open>resumeSession\<close> returns no error; the call to the baker is the only call it
  makes (the tunnel is not started, the store is not written) and no watcher is spawned.
\<close>

theorem resumeSession_bake_failure_skipped:
  assumes "distinct_names K"
    and "State sess = StateCreated K \<or> State sess = StateInUse K"
    and "\<not> Before (Expiry sess) (clock E (clock_reads s))"
    and "Type sess = TypeMacaroonAdmin K \<or> Type sess = TypeMacaroonReadonly K"
    and "ret_superMacBaker E (calls s) (MacaroonRootKey sess)
           \<lparr>Permissions = GetAllPermissions E (Type sess = TypeMacaroonReadonly K)\<rparr> = Inl err"
  shows "fst (resumeSession K E sess s) = None \<and>
         calls (snd (resumeSession K E sess s)) =
           calls s @ [Call_superMacBaker (MacaroonRootKey sess)
              \<lparr>Permissions = GetAllPermissions E (Type sess = TypeMacaroonReadonly K)\<rparr>] \<and>
         goroutines (snd (resumeSession K E sess s)) = goroutines s \<and>
         wg (snd (resumeSession K E sess s)) = wg s"
  using assms
  by (auto simp: resumeSession_def collab_defs distinct_names_def Let_def)

theorem resumeSession_bake_failure_skipped_witness:
  "distinct_names names0 \<and>
   (State admin0 = StateCreated names0 \<or> State admin0 = StateInUse names0) \<and>
   \<not> Before (Expiry admin0) (clock env_bake_fails (clock_reads server0)) \<and>
   (Type admin0 = TypeMacaroonAdmin names0 \<or> Type admin0 = TypeMacaroonReadonly names0) \<and>
   ret_superMacBaker env_bake_fails (calls server0) (MacaroonRootKey admin0)
     \<lparr>Permissions = GetAllPermissions env_bake_fails
                       (Type admin0 = TypeMacaroonReadonly names0)\<rparr> =
     Inl (External ''no macaroon'') \<and>
   fst (resumeSession names0 env_bake_fails admin0 server0) = None \<and>
   calls (snd (resumeSession names0 env_bake_fails admin0 server0)) =
     [Call_superMacBaker 5 \<lparr>Permissions = [''read'', ''write'']\<rparr>] \<and>
   goroutines (snd (resumeSession names0 env_bake_fails admin0 server0)) = [] \<and>
   wg (snd (resumeSession names0 env_bake_fails admin0 server0)) = 0"
proof -
  have h: "distinct_names names0"
    "State admin0 = StateCreated names0 \<or> State admin0 = StateInUse names0"
    "\<not> Before (Expiry admin0) (clock env_bake_fails (clock_reads server0))"
    "Type admin0 = TypeMacaroonAdmin names0 \<or> Type admin0 = TypeMacaroonReadonly names0"
    "ret_superMacBaker env_bake_fails (calls server0) (MacaroonRootKey admin0)
       \<lparr>Permissions = GetAllPermissions env_bake_fails
                         (Type admin0 = TypeMacaroonReadonly names0)\<rparr> =
       Inl (External ''no macaroon'')"
    by (simp_all add: ex_defs distinct_names_def Before_def word_sless_alt)
  from resumeSession_bake_failure_skipped [OF h] h show ?thesis
    by (simp add: ex_defs)
qed

subsection \<open>The watcher\<close>

text \<open>
  Claim C3. A watcher acts on the one trigger its \<^verbatim>\<open>select\<close> takes and ends (it leaves
  the running goroutines and decrements the wait group; the result is never a fault).
  When the timer fired it calls the tunnel's \<^verbatim>\<open>StopSession\<close> and then the store's
  \<^verbatim>\<open>RevokeSession\<close>, in this order and whatever the first call returned; a failure of
  either call adds a line to the log and nothing else. When \<open>quit\<close> was closed, or the
  session was closed, it calls no collaborator and writes no log line.
\<close>

theorem watcher_body_one_trigger:
  assumes "0 < wg s"
  shows "(case trig of
            TimerFired \<Rightarrow>
              watcher_body E trig w s =
                Inr (s\<lparr>goroutines := remove1 w (goroutines s),
                       wg := wg s - 1,
                       calls := calls s @ [Call_StopSession (w_pubKey w),
                                           Call_db_RevokeSession (w_pubKey w)],
                       logs := logs s @ [Log_StoppingExpired (w_pubKeyBytes w)] @
                         (case ret_StopSession E (calls s) (w_pubKey w) of
                            Some e \<Rightarrow> [Log_ErrorStopping e]
                          | None \<Rightarrow> []) @
                         (case ret_db_RevokeSession E
                                 (calls s @ [Call_StopSession (w_pubKey w)]) (w_pubKey w) of
                            Some e \<Rightarrow> [Log_ErrorRevoking e]
                          | None \<Rightarrow> [])\<rparr>)
          | _ \<Rightarrow>
              watcher_body E trig w s =
                Inr (s\<lparr>goroutines := remove1 w (goroutines s), wg := wg s - 1\<rparr>))"
  using assms
  by (cases trig)
     (auto simp: watcher_body_def wg_Done_def collab_defs Let_def split: option.splits)

theorem watcher_body_one_trigger_witness:
  "0 < wg server1 \<and>
   watcher_body env_both_fail TimerFired watcher0 server1 =
     Inr (server1\<lparr>goroutines := [], wg := 0,
                  calls := [Call_StopSession key0, Call_db_RevokeSession key0],
                  logs := [Log_StoppingExpired [2, 7],
                           Log_ErrorStopping (External ''not running''),
                           Log_ErrorRevoking (External ''not found'')]\<rparr>) \<and>
   watcher_body env_both_fail QuitClosed watcher0 server1 =
     Inr (server1\<lparr>goroutines := [], wg := 0\<rparr>) \<and>
   watcher_body env_both_fail SessionClosed watcher0 server1 =
     Inr (server1\<lparr>goroutines := [], wg := 0\<rparr>)"
proof -
  have h: "0 < wg server1"
    by (simp add: server1_def)
  from watcher_body_one_trigger [OF h, where trig = TimerFired and E = env_both_fail and w = watcher0]
    watcher_body_one_trigger [OF h, where trig = QuitClosed and E = env_both_fail and w = watcher0]
    watcher_body_one_trigger [OF h, where trig = SessionClosed and E = env_both_fail and w = watcher0]
    h
  show ?thesis
    by (simp add: ex_defs)
qed

subsection \<open>Shutdown\<close>

lemma watcher_body_fields:
  assumes "0 < wg s"
  shows "\<exists>s'. watcher_body E trig w s = Inr s' \<and>
              goroutines s' = remove1 w (goroutines s) \<and> wg s' = wg s - 1 \<and>
              quit_closed s' = quit_closed s \<and> stopOnce_done s' = stopOnce_done s"
  using assms
  by (cases trig)
     (auto simp: watcher_body_def wg_Done_def collab_defs Let_def split: option.splits)

text \<open>The wait ends: every watcher runs to its end, and none is left.\<close>

lemma run_watchers_drains:
  assumes "goroutines s = ws" and "wg s = int (length ws)"
  shows "\<exists>s'. run_watchers E pick ws s = Inr s' \<and> goroutines s' = [] \<and> wg s' = 0 \<and>
              quit_closed s' = quit_closed s \<and> stopOnce_done s' = stopOnce_done s"
  using assms
proof (induction ws arbitrary: s)
  case Nil
  then show ?case by simp
next
  case (Cons w ws)
  then have "0 < wg s" by simp
  then obtain s1 where s1: "watcher_body E (pick w) w s = Inr s1"
    "goroutines s1 = remove1 w (goroutines s)" "wg s1 = wg s - 1"
    "quit_closed s1 = quit_closed s" "stopOnce_done s1 = stopOnce_done s"
    using watcher_body_fields by blast
  from s1 Cons.prems have "goroutines s1 = ws" "wg s1 = int (length ws)"
    by simp_all
  from Cons.IH [OF this] s1 show ?case by simp
qed

lemma stop_first:
  assumes "server_inv s" and "\<not> stopOnce_done s"
  shows "\<exists>s'. stop E pick s = Inr s' \<and> stopOnce_done s' \<and> quit_closed s' \<and>
              goroutines s' = [] \<and> wg s' = 0"
proof -
  from assms have open_quit: "\<not> quit_closed s" and count: "wg s = int (length (goroutines s))"
    by (auto simp: server_inv_def)
  let ?s1 = "s\<lparr>quit_closed := True\<rparr>"
  have "goroutines ?s1 = goroutines s" "wg ?s1 = int (length (goroutines s))"
    using count by simp_all
  from run_watchers_drains [OF this, of E pick]
  obtain s2 where s2: "run_watchers E pick (goroutines s) ?s1 = Inr s2"
    "goroutines s2 = []" "wg s2 = 0" "quit_closed s2"
    by auto
  then have "stop E pick s = Inr (s2\<lparr>stopOnce_done := True\<rparr>)"
    using assms(2) open_quit by (simp add: stop_def close_quit_def wg_Wait_def)
  with s2 show ?thesis by simp
qed

lemma stop_again: "stopOnce_done s \<Longrightarrow> stop E pick s = Inr s"
  by (simp add: stop_def)

lemma stop_many_again: "stopOnce_done s \<Longrightarrow> stop_many E picks s = Inr s"
  by (induction picks) (simp_all add: stop_again)

text \<open>
  Claim C4. Shutdown is idempotent: one invocation of \<^verbatim>\<open>stop\<close> followed by any number
  of further ones leaves the server as the first invocation alone does, and none of them
  panics or blocks. The first invocation on a server that was not stopped closes \<open>quit\<close>
  and drains the watchers; an invocation on a stopped server changes nothing.
\<close>

theorem stop_idempotent:
  assumes "server_inv s"
  shows "stop_many E (pick # picks) s = stop E pick s \<and>
         (\<exists>s'. stop E pick s = Inr s' \<and> stopOnce_done s' \<and>
               (if stopOnce_done s then s' = s
                else quit_closed s' \<and> goroutines s' = [] \<and> wg s' = 0))"
proof (cases "stopOnce_done s")
  case True
  then show ?thesis by (simp add: stop_again stop_many_again)
next
  case False
  with assms obtain s' where s': "stop E pick s = Inr s'" "stopOnce_done s'" "quit_closed s'"
    "goroutines s' = []" "wg s' = 0"
    using stop_first by blast
  then have "stop_many E (pick # picks) s = Inr s'"
    by (simp add: stop_many_again)
  with s' False show ?thesis by simp
qed

theorem stop_idempotent_witness:
  "server_inv server1 \<and>
   stop_many env0 [\<lambda>w. QuitClosed, \<lambda>w. TimerFired, \<lambda>w. SessionClosed] server1 =
     stop env0 (\<lambda>w. QuitClosed) server1 \<and>
   stop env0 (\<lambda>w. QuitClosed) server1 =
     Inr (server1\<lparr>quit_closed := True, wg := 0, stopOnce_done := True, goroutines := []\<rparr>)"
proof -
  have h: "server_inv server1"
    by (simp add: server_inv_def ex_defs)
  have "stop env0 (\<lambda>w. QuitClosed) server1 =
     Inr (server1\<lparr>quit_closed := True, wg := 0, stopOnce_done := True, goroutines := []\<rparr>)"
    by (simp add: stop_def close_quit_def wg_Wait_def watcher_body_def wg_Done_def ex_defs)
  with stop_idempotent [OF h, where E = env0 and pick = "\<lambda>w. QuitClosed"
         and picks = "[\<lambda>w. TimerFired, \<lambda>w. SessionClosed]"] h
  show ?thesis by simp
qed

subsection \<open>The invariant\<close>

text \<open>
  \<open>server_inv\<close> holds for a new server and after each operation, so the hypothesis of
  the shutdown theorem holds whenever \<^verbatim>\<open>stop\<close> is invoked.
\<close>

lemma server_inv_fresh:
  "server_inv \<lparr>basicAuth = a, quit_closed = False, wg = 0, stopOnce_done = False,
               goroutines = [], calls = [], logs = [], clock_reads = 0\<rparr>"
  by (simp add: server_inv_def)

lemma server_inv_collaborators:
  assumes "server_inv s"
  shows "server_inv (snd (time_Now E s))"
    and "server_inv (log_Debugf l s)"
    and "server_inv (snd (session_NewSession E label typ expiry addr dev s))"
    and "server_inv (snd (db_StoreSession E sess s))"
    and "server_inv (snd (db_RevokeSession E pubKey s))"
    and "server_inv (snd (superMacBaker E rootKeyID recipe s))"
    and "server_inv (snd (sessionServer_StopSession E pubKey s))"
  using assms by (simp_all add: server_inv_def collab_defs)

lemma server_inv_startAndWatch:
  "server_inv s \<Longrightarrow> server_inv (snd (startAndWatch E sess authData s))"
  by (auto simp: server_inv_def startAndWatch_def go_watcher_def wg_Add_def collab_defs
      split: sum.splits)

lemma server_inv_resumeSession:
  assumes "server_inv s"
  shows "server_inv (snd (resumeSession K E sess s))"
  using assms
  by (simp add: resumeSession_def Let_def case_prod_unfold server_inv_collaborators
      server_inv_startAndWatch split: option.splits sum.splits)

lemma server_inv_AddSession:
  assumes "server_inv s"
  shows "server_inv (snd (AddSession K E req s))"
  using assms
  by (simp add: AddSession_def Let_def case_prod_unfold server_inv_collaborators
      server_inv_resumeSession split: option.splits sum.splits)

lemma server_inv_RevokeSession:
  assumes "server_inv s"
  shows "server_inv (snd (RevokeSession E req s))"
  using assms
  by (simp add: RevokeSession_def Let_def case_prod_unfold server_inv_collaborators
      split: option.splits sum.splits)

lemma server_inv_watcher_body:
  assumes "server_inv s" and "w \<in> set (goroutines s)"
  shows "\<exists>s'. watcher_body E trig w s = Inr s' \<and> server_inv s'"
proof -
  from assms(2) have len: "0 < length (goroutines s)"
    by (rule length_pos_if_in_set)
  with assms(1) have "0 < wg s"
    by (simp add: server_inv_def)
  then obtain s' where s': "watcher_body E trig w s = Inr s'"
    "goroutines s' = remove1 w (goroutines s)" "wg s' = wg s - 1"
    "quit_closed s' = quit_closed s" "stopOnce_done s' = stopOnce_done s"
    using watcher_body_fields by blast
  from len have "int (length (goroutines s) - 1) = int (length (goroutines s)) - 1"
    by (cases "goroutines s") simp_all
  with s' assms have "server_inv s'"
    by (simp add: server_inv_def length_remove1)
  with s' show ?thesis by simp
qed

lemma server_inv_stop:
  assumes "server_inv s"
  shows "\<exists>s'. stop E pick s = Inr s' \<and> server_inv s'"
proof (cases "stopOnce_done s")
  case True
  with assms show ?thesis by (simp add: stop_again)
next
  case False
  with assms obtain s' where "stop E pick s = Inr s'" "stopOnce_done s'" "quit_closed s'"
    "goroutines s' = []" "wg s' = 0"
    using stop_first by blast
  then show ?thesis by (simp add: server_inv_def)
qed

subsection \<open>The handlers\<close>

text \<open>
  Claim C6, amended. An \<^verbatim>\<open>AddSession\<close> request whose expiry is strictly before the
  reading of the clock fails with the expiry error; no collaborator is called (no session
  is constructed or stored) and no watcher is spawned.
\<close>

theorem AddSession_past_expiry_rejected:
  assumes "Before (time_Unix (to_int64 (req_ExpiryTimestampSeconds req)))
             (clock E (clock_reads s))"
  shows "fst (AddSession K E req s) = Inl ExpiryMustBeInTheFuture \<and>
         calls (snd (AddSession K E req s)) = calls s \<and>
         goroutines (snd (AddSession K E req s)) = goroutines s \<and>
         wg (snd (AddSession K E req s)) = wg s"
  using assms
  by (simp add: AddSession_def time_Now_def After_iff_Before)

theorem AddSession_past_expiry_rejected_witness:
  "Before (time_Unix (to_int64 (req_ExpiryTimestampSeconds request_past)))
     (clock env0 (clock_reads server0)) \<and>
   fst (AddSession names0 env0 request_past server0) = Inl ExpiryMustBeInTheFuture \<and>
   calls (snd (AddSession names0 env0 request_past server0)) = [] \<and>
   goroutines (snd (AddSession names0 env0 request_past server0)) = [] \<and>
   wg (snd (AddSession names0 env0 request_past server0)) = 0"
proof -
  have h: "Before (time_Unix (to_int64 (req_ExpiryTimestampSeconds request_past)))
     (clock env0 (clock_reads server0))"
    by (simp add: ex_defs Before_def time_Unix_def to_int64_def unixToInternal_def
        word_sless_alt)
  from AddSession_past_expiry_rejected [OF h, where K = names0] h show ?thesis
    by (simp add: server0_def)
qed

text \<open>
  The claim as it was stated rejects an expiry equal to the reading of the clock. Such a
  request is accepted: the session is constructed, stored and started.
\<close>

theorem AddSession_expiry_now_accepted:
  "\<not> After (time_Unix (to_int64 (req_ExpiryTimestampSeconds request_now)))
       (clock env0 (clock_reads server0)) \<and>
   fst (AddSession names0 env0 request_now server0) \<noteq> Inl ExpiryMustBeInTheFuture \<and>
   calls (snd (AddSession names0 env0 request_now server0)) =
     [Call_NewSession ''s'' 3 now0 ''mailbox'' False,
      Call_db_StoreSession (session0\<lparr>Expiry := now0\<rparr>),
      Call_StartSession (session0\<lparr>Expiry := now0\<rparr>) ''Authorization: Basic dTpw'']"
  by (simp add: ex_defs AddSession_def resumeSession_def startAndWatch_def go_watcher_def
      wg_Add_def collab_defs Before_def After_def Let_def time_Unix_def to_int64_def
      unixToInternal_def unmarshalRPCType_def marshalRPCSession_def marshalRPCState_def
      marshalRPCType_def)

text \<open>
  Claim C10. For a request whose \<^verbatim>\<open>ExpiryTimestampSeconds\<close> is at least \<open>2^63\<close>, the
  conversion to \<^verbatim>\<open>int64\<close> is negative, and \<^verbatim>\<open>AddSession\<close> fails with the expiry error
  without constructing or storing a session. The clock is taken to stand at or after
  January 1, 1970.
\<close>

theorem AddSession_high_timestamp_rejected:
  assumes "2 ^ 63 \<le> uint (req_ExpiryTimestampSeconds req)"
    and "unixToInternal \<le>s sec (clock E (clock_reads s))"
  shows "sint (to_int64 (req_ExpiryTimestampSeconds req)) < 0 \<and>
         fst (AddSession K E req s) = Inl ExpiryMustBeInTheFuture \<and>
         calls (snd (AddSession K E req s)) = calls s \<and>
         goroutines (snd (AddSession K E req s)) = goroutines s \<and>
         wg (snd (AddSession K E req s)) = wg s"
proof -
  have neg: "sint (to_int64 (req_ExpiryTimestampSeconds req)) < 0"
    using assms(1) by (simp add: to_int64_def sint_high_uint64)
  then have "After (clock E (clock_reads s))
               (time_Unix (to_int64 (req_ExpiryTimestampSeconds req)))"
    using assms(2) by (rule negative_Unix_After)
  then show ?thesis
    using neg by (simp add: AddSession_def time_Now_def)
qed

theorem AddSession_high_timestamp_rejected_witness:
  "2 ^ 63 \<le> uint (req_ExpiryTimestampSeconds request_high) \<and>
   unixToInternal \<le>s sec (clock env0 (clock_reads server0)) \<and>
   sint (to_int64 (req_ExpiryTimestampSeconds request_high)) < 0 \<and>
   fst (AddSession names0 env0 request_high server0) = Inl ExpiryMustBeInTheFuture \<and>
   calls (snd (AddSession names0 env0 request_high server0)) = [] \<and>
   goroutines (snd (AddSession names0 env0 request_high server0)) = [] \<and>
   wg (snd (AddSession names0 env0 request_high server0)) = 0"
proof -
  have h: "2 ^ 63 \<le> uint (req_ExpiryTimestampSeconds request_high)"
    "unixToInternal \<le>s sec (clock env0 (clock_reads server0))"
    by (simp_all add: ex_defs unixToInternal_def word_sle_eq)
  from AddSession_high_timestamp_rejected [OF h, where K = names0] h show ?thesis
    by (simp add: server0_def)
qed

text \<open>
  Claim C8. \<^verbatim>\<open>RevokeSession\<close> with a key that parses calls the store first. If the store
  fails, the error is returned and the store call is the only call: the tunnel is not
  asked to stop. If the store succeeds, the tunnel is asked to stop and the handler
  succeeds; a failure of the stop adds a line to the log and nothing else.
\<close>

theorem RevokeSession_store_first:
  assumes "ParsePubKey E (req_LocalPublicKey req) = Inr pubKey"
  shows "(case ret_db_RevokeSession E (calls s) pubKey of
            Some e \<Rightarrow>
              fst (RevokeSession E req s) = Inl (ErrorRevokingSession e) \<and>
              calls (snd (RevokeSession E req s)) = calls s @ [Call_db_RevokeSession pubKey]
          | None \<Rightarrow>
              fst (RevokeSession E req s) = Inr () \<and>
              calls (snd (RevokeSession E req s)) =
                calls s @ [Call_db_RevokeSession pubKey, Call_StopSession pubKey] \<and>
              logs (snd (RevokeSession E req s)) =
                logs s @
                (case ret_StopSession E (calls s @ [Call_db_RevokeSession pubKey]) pubKey of
                   Some e \<Rightarrow> [Log_ErrorStopping e]
                 | None \<Rightarrow> []))"
  using assms
  by (auto simp: RevokeSession_def collab_defs Let_def split: option.splits)

theorem RevokeSession_store_first_witness:
  "ParsePubKey env_store_fails (req_LocalPublicKey revoke0) = Inr key0 \<and>
   fst (RevokeSession env_store_fails revoke0 server0) =
     Inl (ErrorRevokingSession (External ''not found'')) \<and>
   calls (snd (RevokeSession env_store_fails revoke0 server0)) = [Call_db_RevokeSession key0] \<and>
   ParsePubKey env_stop_fails (req_LocalPublicKey revoke0) = Inr key0 \<and>
   fst (RevokeSession env_stop_fails revoke0 server0) = Inr () \<and>
   calls (snd (RevokeSession env_stop_fails revoke0 server0)) =
     [Call_db_RevokeSession key0, Call_StopSession key0] \<and>
   logs (snd (RevokeSession env_stop_fails revoke0 server0)) =
     [Log_ErrorStopping (External ''not running'')]"
proof -
  have h: "ParsePubKey env_store_fails (req_LocalPublicKey revoke0) = Inr key0"
    "ParsePubKey env_stop_fails (req_LocalPublicKey revoke0) = Inr key0"
    by (simp_all add: ex_defs)
  from RevokeSession_store_first [OF h(1), where s = server0]
    RevokeSession_store_first [OF h(2), where s = server0] h
  show ?thesis
    by (simp add: ex_defs)
qed

subsection \<open>The translation of session types\<close>

lemma marshalRPCType_known:
  assumes "distinct_names K"
  shows "marshalRPCType K (TypeMacaroonReadonly K) = Inr (SessionType_TYPE_MACAROON_READONLY K)"
    and "marshalRPCType K (TypeMacaroonAdmin K) = Inr (SessionType_TYPE_MACAROON_ADMIN K)"
    and "marshalRPCType K (TypeMacaroonCustom K) = Inr (SessionType_TYPE_MACAROON_CUSTOM K)"
    and "marshalRPCType K (TypeUIPassword K) = Inr (SessionType_TYPE_UI_PASSWORD K)"
  using assms by (auto simp: marshalRPCType_def distinct_names_def)

lemma unmarshalRPCType_known:
  assumes "distinct_names K"
  shows "unmarshalRPCType K (SessionType_TYPE_MACAROON_READONLY K) = Inr (TypeMacaroonReadonly K)"
    and "unmarshalRPCType K (SessionType_TYPE_MACAROON_ADMIN K) = Inr (TypeMacaroonAdmin K)"
    and "unmarshalRPCType K (SessionType_TYPE_MACAROON_CUSTOM K) = Inr (TypeMacaroonCustom K)"
    and "unmarshalRPCType K (SessionType_TYPE_UI_PASSWORD K) = Inr (TypeUIPassword K)"
  using assms by (auto simp: unmarshalRPCType_def distinct_names_def)

lemma marshalRPCType_unknown:
  assumes "t \<notin> {TypeUIPassword K, TypeMacaroonAdmin K, TypeMacaroonReadonly K,
                  TypeMacaroonCustom K}"
  shows "marshalRPCType K t = Inl UnknownType"
  using assms by (simp add: marshalRPCType_def)

lemma unmarshalRPCType_unknown:
  assumes "r \<notin> {SessionType_TYPE_UI_PASSWORD K, SessionType_TYPE_MACAROON_ADMIN K,
                  SessionType_TYPE_MACAROON_READONLY K, SessionType_TYPE_MACAROON_CUSTOM K}"
  shows "unmarshalRPCType K r = Inl UnknownType"
  using assms by (simp add: unmarshalRPCType_def)

text \<open>
  Claim C9. On the four session types, translating to the wire type and back gives the
  type again, and so does translating a known wire type to the session type and back. A
  value outside the known set fails to translate, in either direction, with the unknown
  type error.
\<close>

theorem session_type_roundtrip:
  assumes "distinct_names K"
  shows "(if t \<in> {TypeUIPassword K, TypeMacaroonAdmin K, TypeMacaroonReadonly K,
                   TypeMacaroonCustom K}
          then (case marshalRPCType K t of
                  Inl e \<Rightarrow> Inl e
                | Inr r \<Rightarrow> unmarshalRPCType K r) = Inr t
          else marshalRPCType K t = Inl UnknownType) \<and>
         (if r \<in> {SessionType_TYPE_UI_PASSWORD K, SessionType_TYPE_MACAROON_ADMIN K,
                   SessionType_TYPE_MACAROON_READONLY K, SessionType_TYPE_MACAROON_CUSTOM K}
          then (case unmarshalRPCType K r of
                  Inl e \<Rightarrow> Inl e
                | Inr t \<Rightarrow> marshalRPCType K t) = Inr r
          else unmarshalRPCType K r = Inl UnknownType)"
proof (intro conjI)
  note known = marshalRPCType_known [OF assms] unmarshalRPCType_known [OF assms]
  show "if t \<in> {TypeUIPassword K, TypeMacaroonAdmin K, TypeMacaroonReadonly K,
                  TypeMacaroonCustom K}
        then (case marshalRPCType K t of
                Inl e \<Rightarrow> Inl e
              | Inr r \<Rightarrow> unmarshalRPCType K r) = Inr t
        else marshalRPCType K t = Inl UnknownType"
  proof (cases "t \<in> {TypeUIPassword K, TypeMacaroonAdmin K, TypeMacaroonReadonly K,
                       TypeMacaroonCustom K}")
    case True
    then consider "t = TypeUIPassword K" | "t = TypeMacaroonAdmin K"
      | "t = TypeMacaroonReadonly K" | "t = TypeMacaroonCustom K"
      by blast
    then have "(case marshalRPCType K t of
                  Inl e \<Rightarrow> Inl e
                | Inr r \<Rightarrow> unmarshalRPCType K r) = Inr t"
      by cases (simp_all add: known)
    with True show ?thesis by simp
  next
    case False
    then show ?thesis
      using marshalRPCType_unknown [of t K] by simp
  qed
  show "if r \<in> {SessionType_TYPE_UI_PASSWORD K, SessionType_TYPE_MACAROON_ADMIN K,
                  SessionType_TYPE_MACAROON_READONLY K, SessionType_TYPE_MACAROON_CUSTOM K}
        then (case unmarshalRPCType K r of
                Inl e \<Rightarrow> Inl e
              | Inr t \<Rightarrow> marshalRPCType K t) = Inr r
        else unmarshalRPCType K r = Inl UnknownType"
  proof (cases "r \<in> {SessionType_TYPE_UI_PASSWORD K, SessionType_TYPE_MACAROON_ADMIN K,
                       SessionType_TYPE_MACAROON_READONLY K, SessionType_TYPE_MACAROON_CUSTOM K}")
    case True
    then consider "r = SessionType_TYPE_UI_PASSWORD K" | "r = SessionType_TYPE_MACAROON_ADMIN K"
      | "r = SessionType_TYPE_MACAROON_READONLY K" | "r = SessionType_TYPE_MACAROON_CUSTOM K"
      by blast
    then have "(case unmarshalRPCType K r of
                  Inl e \<Rightarrow> Inl e
                | Inr t \<Rightarrow> marshalRPCType K t) = Inr r"
      by cases (simp_all add: known)
    with True show ?thesis by simp
  next
    case False
    then show ?thesis
      using unmarshalRPCType_unknown [of r K] by simp
  qed
qed

theorem session_type_roundtrip_witness:
  "distinct_names names0 \<and>
   marshalRPCType names0 (TypeUIPassword names0) = Inr (SessionType_TYPE_UI_PASSWORD names0) \<and>
   unmarshalRPCType names0 (SessionType_TYPE_UI_PASSWORD names0) = Inr (TypeUIPassword names0) \<and>
   marshalRPCType names0 7 = Inl UnknownType \<and>
   unmarshalRPCType names0 9 = Inl UnknownType"
proof -
  have h: "distinct_names names0"
    by (simp add: distinct_names_def names0_def)
  from session_type_roundtrip [OF h, where t = "TypeUIPassword names0"
         and r = "SessionType_TYPE_UI_PASSWORD names0"]
    session_type_roundtrip [OF h, where t = 7 and r = 9] h
  show ?thesis
    by (simp add: names0_def marshalRPCType_def unmarshalRPCType_def)
qed

end
